theory Spec2Isabelle
  imports Complex_Main "HOL-Library.Log_Nat"
begin

section \<open>Common data: Python exceptions\<close>

text \<open>
  Every exception that the modelled functions can raise is a value of this type; a
  function that can raise returns \<open>py_error + 'a\<close>, with \<open>Inl\<close> for the exception.
\<close>

datatype py_error =
  AssertionError | KeyError | IndexError | ValueError | TypeError | UnboundLocalError

section \<open>inference.py: the label mapping\<close>





section \<open>inference.py: fusing the inferred labels into the detection file\<close>

text \<open>
  An annotation of the detection JSON. The fields that \<open>save_submit_json\<close> never
  reads (\<open>image_id\<close>, \<open>bbox\<close>) are carried along unchanged.
\<close>

record annotation =
  ann_id :: int
  image_id :: int
  bbox :: "int list"
  category_id :: int
  score :: rat

record 'i det_json =
  images :: "'i list"
  annotations :: "annotation list"

text \<open>
  The dictionary returned by \<open>infer_labels\<close>: the key \<open>'bbox_ids'\<close> and one key
  \<open>'labels_top_k'\<close> per requested rank \<open>k\<close>.
\<close>

record inference_outputs =
  bbox_ids :: "int list"
  labels_top :: "int \<rightharpoonup> int list"

text \<open>
  \<^verbatim>\<open>
  pred_dict = {}
  for i, bbox_id in enumerate(bbox_ids):
      pred_dict[bbox_id] = labels[i]
  \<close>
  \<open>labels[i]\<close> raises IndexError when \<open>labels\<close> is shorter than \<open>bbox_ids\<close>.
\<close>

fun build_pred_dict ::
  "int list \<Rightarrow> int list \<Rightarrow> nat \<Rightarrow> (int \<rightharpoonup> int) \<Rightarrow> py_error + (int \<rightharpoonup> int)" where
  "build_pred_dict [] labels i pred_dict = Inr pred_dict"
| "build_pred_dict (bbox_id # rest) labels i pred_dict =
     (if i < length labels
      then build_pred_dict rest labels (Suc i) (pred_dict(bbox_id \<mapsto> labels ! i))
      else Inl IndexError)"

text \<open>
  \<^verbatim>\<open>
  ann_new = []
  for ann in data_ori['annotations']:
      assert ann['id'] in pred_dict
      if ann['score'] < score_thr: continue
      label = pred_dict[ann['id']]
      ann['category_id'] = int(label)
      ann_new.append(ann)
  \<close>
  The labels are integers, so \<open>int(label)\<close> is the identity.
\<close>

fun fuse_annotations ::
  "(int \<rightharpoonup> int) \<Rightarrow> rat \<Rightarrow> annotation list \<Rightarrow> annotation list
     \<Rightarrow> py_error + annotation list" where
  "fuse_annotations pred_dict score_thr [] ann_new = Inr ann_new"
| "fuse_annotations pred_dict score_thr (ann # rest) ann_new =
     (case pred_dict (ann_id ann) of
        None \<Rightarrow> Inl AssertionError
      | Some label \<Rightarrow>
          if score ann < score_thr
          then fuse_annotations pred_dict score_thr rest ann_new
          else fuse_annotations pred_dict score_thr rest
                 (ann_new @ [ann\<lparr>category_id := label\<rparr>]))"

text \<open>
  The part of \<open>save_submit_json\<close> before the output file is opened: the fused JSON
  value, or the exception that ends the call.
\<close>

definition fused_json ::
  "inference_outputs \<Rightarrow> 'i det_json \<Rightarrow> rat \<Rightarrow> int \<Rightarrow> py_error + 'i det_json" where
  "fused_json outputs data_ori score_thr top_k =
     (case labels_top outputs top_k of
        None \<Rightarrow> Inl KeyError
      | Some labels \<Rightarrow>
          (case build_pred_dict (bbox_ids outputs) labels 0 Map.empty of
             Inl e \<Rightarrow> Inl e
           | Inr pred_dict \<Rightarrow>
               (case fuse_annotations pred_dict score_thr (annotations data_ori) [] of
                  Inl e \<Rightarrow> Inl e
                | Inr ann_new \<Rightarrow> Inr (data_ori\<lparr>annotations := ann_new\<rparr>))))"

text \<open>
  \<open>save_submit_json\<close> with the file at \<open>out_json_path\<close> as explicit state:
  \<open>out_file\<close> is its content before the call (\<open>None\<close>: no such file), the second
  component of the result its content afterwards. The first component is the exception
  raised, if any. The file is opened for writing only after the loop has ended.
\<close>

definition save_submit_json ::
  "inference_outputs \<Rightarrow> 'i det_json \<Rightarrow> 'i det_json option \<Rightarrow> rat \<Rightarrow> int
     \<Rightarrow> py_error option \<times> 'i det_json option" where
  "save_submit_json outputs data_ori out_file score_thr top_k =
     (case fused_json outputs data_ori score_thr top_k of
        Inl e \<Rightarrow> (Some e, out_file)
      | Inr data_new \<Rightarrow> (None, Some data_new))"

text \<open>The dictionary that the first loop of \<open>save_submit_json\<close> builds.\<close>

definition pred_dict_of :: "inference_outputs \<Rightarrow> int \<Rightarrow> py_error + (int \<rightharpoonup> int)" where
  "pred_dict_of outputs top_k =
     (case labels_top outputs top_k of
        None \<Rightarrow> Inl KeyError
      | Some labels \<Rightarrow> build_pred_dict (bbox_ids outputs) labels 0 Map.empty)"

section \<open>inference.py: nearest-neighbour label inference\<close>

text \<open>
  The outputs of the embedding runs: the query side carries the bounding-box ids, the
  reference side the ground-truth labels. \<open>'e\<close> is the type of an embedding vector.
\<close>

record 'e qry_outputs =
  qry_embeddings :: "'e list"
  qry_bbox_ids :: "int list"

record 'e ref_outputs =
  ref_embeddings :: "'e list"
  ref_labels :: "int list"

text \<open>
  \<open>mat = dist_func(qry_emb, ref_emb)\<close>: one row per query, one column per reference.
  \<open>LpDistance\<close> is imported from a module outside the sources, so the distance of two
  embeddings is the parameter \<open>dist_func\<close>.
\<close>

definition distance_matrix :: "('e \<Rightarrow> 'e \<Rightarrow> 'd) \<Rightarrow> 'e list \<Rightarrow> 'e list \<Rightarrow> 'd list list" where
  "distance_matrix dist_func qry_emb ref_emb =
     map (\<lambda>q. map (\<lambda>r. dist_func q r) ref_emb) qry_emb"

text \<open>
  \<open>np.argsort\<close> of one row: the column indices in ascending order of distance. Equal
  distances keep their column order here (numpy leaves the order of ties to the sorting
  algorithm).
\<close>

definition np_argsort :: "('d::linorder) list \<Rightarrow> nat list" where
  "np_argsort row = sort_key (\<lambda>j. row ! j) [0..<length row]"

text \<open>Running a fallible function over a list, stopping at the first exception.\<close>

fun map_err :: "('a \<Rightarrow> py_error + 'b) \<Rightarrow> 'a list \<Rightarrow> py_error + 'b list" where
  "map_err f [] = Inr []"
| "map_err f (x # xs) =
     (case f x of
        Inl e \<Rightarrow> Inl e
      | Inr y \<Rightarrow> (case map_err f xs of Inl e \<Rightarrow> Inl e | Inr ys \<Rightarrow> Inr (y # ys)))"

text \<open>\<open>ref_labels[inds]\<close> for one row of indices; an index out of range raises.\<close>

definition take_labels :: "int list \<Rightarrow> nat list \<Rightarrow> py_error + int list" where
  "take_labels labels inds =
     (if \<forall>j \<in> set inds. j < length labels then Inr (map (\<lambda>j. labels ! j) inds)
      else Inl IndexError)"

text \<open>The Python slice \<open>xs[:k]\<close>; a negative \<open>k\<close> counts from the end.\<close>

definition py_slice_to :: "int \<Rightarrow> 'a list \<Rightarrow> 'a list" where
  "py_slice_to k xs = (if 0 \<le> k then take (nat k) xs else take (length xs - nat (- k)) xs)"

text \<open>
  \<open>Counter(top_k)\<close>: the tally of each label, in the order of first occurrence (the
  insertion order of the underlying dictionary).
\<close>

fun counter_add :: "int \<Rightarrow> (int \<times> nat) list \<Rightarrow> (int \<times> nat) list" where
  "counter_add x [] = [(x, 1)]"
| "counter_add x ((y, c) # rest) =
     (if x = y then (y, Suc c) # rest else (y, c) # counter_add x rest)"

definition Counter :: "int list \<Rightarrow> (int \<times> nat) list" where
  "Counter xs = fold counter_add xs []"

text \<open>
  \<open>votes.most_common(1)\<close> is \<open>heapq.nlargest(1, items, key=count)\<close>, which is
  \<open>max\<close> over the items: the first item with the largest count, or the empty list.
\<close>

fun most_common_1 :: "(int \<times> nat) list \<Rightarrow> (int \<times> nat) list" where
  "most_common_1 [] = []"
| "most_common_1 (x # xs) = [fold (\<lambda>y best. if snd best < snd y then y else best) xs x]"

text \<open>
  The body of the inner loop for one query:
  \<^verbatim>\<open>
  top_k = pred_labels[i, :k]
  votes = Counter(top_k)
  pred = votes.most_common(1)[0][0]
  pred = label_mapping[pred]
  \<close>
\<close>

definition vote_label :: "(int \<rightharpoonup> int) \<Rightarrow> int \<Rightarrow> int list \<Rightarrow> py_error + int" where
  "vote_label label_mapping k pred_row =
     (case most_common_1 (Counter (py_slice_to k pred_row)) of
        [] \<Rightarrow> Inl IndexError
      | (pred, _) # _ \<Rightarrow>
          (case label_mapping pred of None \<Rightarrow> Inl KeyError | Some l \<Rightarrow> Inr l))"

text \<open>The majority-vote path for one rank \<open>k\<close>: the inner loop over all queries.\<close>

definition vote_labels :: "(int \<rightharpoonup> int) \<Rightarrow> int \<Rightarrow> int list list \<Rightarrow> py_error + int list" where
  "vote_labels label_mapping k pred_labels = map_err (vote_label label_mapping k) pred_labels"

text \<open>
  The loop over \<open>rank_list\<close>. \<open>n_ref\<close> is the number of columns of \<open>pred_labels\<close>:
  \<open>pred_labels[:, 0]\<close> raises IndexError when there is no column.
  \<^verbatim>\<open>
  for k in rank_list:
      if k == 1:
          result['labels_top_{}'.format(k)] = pred_labels[:, 0]
          continue
      ... majority vote ...
      result['labels_top_{}'.format(k)] = np.array(pred_labels_top_k)
  \<close>
\<close>

fun rank_loop ::
  "(int \<rightharpoonup> int) \<Rightarrow> nat \<Rightarrow> int list list \<Rightarrow> int list \<Rightarrow> inference_outputs
     \<Rightarrow> py_error + inference_outputs" where
  "rank_loop label_mapping n_ref pred_labels [] result = Inr result"
| "rank_loop label_mapping n_ref pred_labels (k # rank_list) result =
     (if k = 1
      then (if n_ref = 0 then Inl IndexError
            else rank_loop label_mapping n_ref pred_labels rank_list
                   (result\<lparr>labels_top := (labels_top result)(k \<mapsto> map (\<lambda>row. row ! 0) pred_labels)\<rparr>))
      else (case vote_labels label_mapping k pred_labels of
              Inl e \<Rightarrow> Inl e
            | Inr pred_labels_top_k \<Rightarrow>
                rank_loop label_mapping n_ref pred_labels rank_list
                  (result\<lparr>labels_top := (labels_top result)(k \<mapsto> pred_labels_top_k)\<rparr>)))"

definition infer_labels ::
  "('e \<Rightarrow> 'e \<Rightarrow> 'd::linorder) \<Rightarrow> 'e qry_outputs \<Rightarrow> 'e ref_outputs \<Rightarrow> (int \<rightharpoonup> int) \<Rightarrow> int list
     \<Rightarrow> py_error + inference_outputs" where
  "infer_labels dist_func qry_outputs ref_outputs label_mapping rank_list =
     (let mat = distance_matrix dist_func (qry_embeddings qry_outputs) (ref_embeddings ref_outputs);
          mat_inds = map np_argsort mat
      in case map_err (take_labels (ref_labels ref_outputs)) mat_inds of
           Inl e \<Rightarrow> Inl e
         | Inr pred_labels \<Rightarrow>
             rank_loop label_mapping (length (ref_embeddings ref_outputs)) pred_labels rank_list
               \<lparr>bbox_ids = qry_bbox_ids qry_outputs, labels_top = Map.empty\<rparr>)"

text \<open>
  The squared Euclidean distance of two vectors of rationals, used to evaluate
  \<open>infer_labels\<close> on concrete embeddings: it orders the references of a query as the
  Euclidean distance does.
\<close>

definition sq_euclid :: "rat list \<Rightarrow> rat list \<Rightarrow> rat" where
  "sq_euclid x y = sum_list (map (\<lambda>(a, b). (a - b) * (a - b)) (zip x y))"

section \<open>blocks/roi_heads/test_mixins.py: the mask test mixin\<close>

text \<open>
  \<open>simple_test_mask\<close> calls the mask head through \<open>self._mask_forward\<close> and
  \<open>self.mask_head.get_seg_masks\<close>. Both are outside the sources; the model takes them
  as parameters and records every call in a log, so that a property can say that a call
  did not happen.
\<close>

datatype mask_call = Mask_forward | Get_seg_masks nat

record ('x, 'roi, 'm, 's, 'f) mask_head =
  num_classes :: nat
  bbox2roi :: "rat list list list \<Rightarrow> 'roi"
  mask_forward :: "'x \<Rightarrow> 'roi \<Rightarrow> 'm"
  split_preds :: "'m \<Rightarrow> nat list \<Rightarrow> 'm list"
  get_seg_masks :: "'m \<Rightarrow> rat list list \<Rightarrow> int list \<Rightarrow> (nat \<times> nat \<times> nat) \<Rightarrow> 'f \<Rightarrow> bool \<Rightarrow> 's list list"
  scale_bboxes :: "rat list list \<Rightarrow> 'f \<Rightarrow> rat list list"

record 'f img_meta =
  ori_shape :: "nat \<times> nat \<times> nat"
  scale_factor :: 'f

text \<open>
  The per-image loop of the second branch:
  \<^verbatim>\<open>
  for i in range(num_imgs):
      if det_bboxes[i].shape[0] == 0:
          segm_results.append([[] for _ in range(self.mask_head.num_classes)])
      else:
          segm_result = self.mask_head.get_seg_masks(mask_preds[i], _bboxes[i],
              det_labels[i], self.test_cfg, ori_shapes[i], scale_factors[i], rescale)
          segm_results.append(segm_result)
  \<close>
  Every tuple indexed by \<open>i\<close> raises IndexError when it is too short.
\<close>

fun decode_loop ::
  "('x, 'roi, 'm, 's, 'f) mask_head \<Rightarrow> 'f img_meta list \<Rightarrow> rat list list list \<Rightarrow> rat list list list
     \<Rightarrow> int list list \<Rightarrow> 'm list \<Rightarrow> bool \<Rightarrow> nat list
     \<Rightarrow> 's list list list \<times> mask_call list
     \<Rightarrow> py_error + ('s list list list \<times> mask_call list)" where
  "decode_loop mh img_metas det_bboxes bboxes' det_labels mask_preds rescale [] acc = Inr acc"
| "decode_loop mh img_metas det_bboxes bboxes' det_labels mask_preds rescale (i # rest) (segm_results, calls) =
     (if length (det_bboxes ! i) = 0
      then decode_loop mh img_metas det_bboxes bboxes' det_labels mask_preds rescale rest
             (segm_results @ [replicate (num_classes mh) []], calls)
      else if i < length mask_preds \<and> i < length det_labels \<and> i < length img_metas
      then decode_loop mh img_metas det_bboxes bboxes' det_labels mask_preds rescale rest
             (segm_results @
                [get_seg_masks mh (mask_preds ! i) (bboxes' ! i) (det_labels ! i)
                   (ori_shape (img_metas ! i)) (scale_factor (img_metas ! i)) rescale],
              calls @ [Get_seg_masks i])
      else Inl IndexError)"

text \<open>
  \<open>MaskTestMixin.simple_test_mask\<close>. A detected-box tensor is the list of its rows, so
  \<open>det_bbox.shape[0]\<close> is the length of the list. The result is the segmentation
  result together with the calls of the calls made to the mask head.
\<close>

definition simple_test_mask ::
  "('x, 'roi, 'm, 's, 'f) mask_head \<Rightarrow> 'x \<Rightarrow> 'f img_meta list \<Rightarrow> rat list list list
     \<Rightarrow> int list list \<Rightarrow> bool \<Rightarrow> py_error + ('s list list list \<times> mask_call list)" where
  "simple_test_mask mh x img_metas det_bboxes det_labels rescale =
     (let num_imgs = length det_bboxes
      in if list_all (\<lambda>det_bbox. length det_bbox = 0) det_bboxes
         then Inr (replicate num_imgs (replicate (num_classes mh) []), [])
         else if length img_metas < num_imgs \<and> rescale then Inl IndexError
         else
           (let bboxes' = map (\<lambda>i. if rescale
                                    then scale_bboxes mh (map (take 4) (det_bboxes ! i))
                                           (scale_factor (img_metas ! i))
                                    else map (take 4) (det_bboxes ! i)) [0..<num_imgs];
                mask_rois = bbox2roi mh bboxes';
                mask_pred = mask_forward mh x mask_rois;
                mask_preds = split_preds mh mask_pred (map length det_bboxes)
            in decode_loop mh img_metas det_bboxes bboxes' det_labels mask_preds rescale
                 [0..<num_imgs] ([], [Mask_forward])))"

section \<open>Numbers: arrays of floating-point numbers\<close>

text \<open>
  The coordinate arrays are numpy arrays. An element is modelled by the rational number
  it holds, and every arithmetic operation on array elements rounds its exact result
  with a function \<open>fl :: rat \<Rightarrow> rat\<close> that the model takes as a parameter: the identity
  for exact arithmetic (arrays of integers), \<open>fl32\<close> below for arrays of dtype
  \<open>float32\<close>, the dtype of the box arrays of this repository. Infinities and NaN are
  modelled only where a division can produce them.
\<close>

definition pow2 :: "int \<Rightarrow> rat" where
  "pow2 k = (if 0 \<le> k then 2 ^ nat k else 1 / 2 ^ nat (- k))"

definition round_half_even :: "rat \<Rightarrow> int" where
  "round_half_even q =
     (let f = \<lfloor>q\<rfloor>; d = q - of_int f
      in if d < 1 / 2 then f else if 1 / 2 < d then f + 1 else if even f then f else f + 1)"

text \<open>The exponent \<open>e\<close> with \<open>2 ^ e \<le> |q| < 2 ^ (e + 1)\<close>, for \<open>q \<noteq> 0\<close>.\<close>

definition binary_exponent :: "rat \<Rightarrow> int" where
  "binary_exponent q =
     (let (n, d) = quotient_of \<bar>q\<bar>; k = bitlen n - bitlen d
      in if pow2 k \<le> \<bar>q\<bar> then k else k - 1)"

text \<open>
  Rounding to the nearest \<open>float32\<close> (24 significant bits, ties to even, subnormals
  below \<open>2 ^ -126\<close>); overflow to infinity is not modelled.
\<close>

definition fl32 :: "rat \<Rightarrow> rat" where
  "fl32 q =
     (if q = 0 then 0
      else let u = pow2 (max (binary_exponent q) (- 126) - 23)
           in of_int (round_half_even (q / u)) * u)"

section \<open>transforms.py: JointRandomFlip.bbox_flip\<close>

text \<open>
  One row of the array holds \<open>4 * k\<close> numbers, \<open>k\<close> boxes \<open>x1, y1, x2, y2\<close>. The
  strided assignments
  \<^verbatim>\<open>
  flipped[..., 0::4] = w - bboxes[..., 2::4]
  flipped[..., 2::4] = w - bboxes[..., 0::4]
  \<close>
  rewrite the first and third number of every group of four.
\<close>

fun flip_horizontal :: "(rat \<Rightarrow> rat) \<Rightarrow> rat \<Rightarrow> rat list \<Rightarrow> rat list" where
  "flip_horizontal fl w (x1 # y1 # x2 # y2 # rest) =
     fl (w - x2) # y1 # fl (w - x1) # y2 # flip_horizontal fl w rest"
| "flip_horizontal fl w row = row"

fun flip_vertical :: "(rat \<Rightarrow> rat) \<Rightarrow> rat \<Rightarrow> rat list \<Rightarrow> rat list" where
  "flip_vertical fl h (x1 # y1 # x2 # y2 # rest) =
     x1 # fl (h - y2) # x2 # fl (h - y1) # flip_vertical fl h rest"
| "flip_vertical fl h row = row"

fun flip_diagonal :: "(rat \<Rightarrow> rat) \<Rightarrow> rat \<Rightarrow> rat \<Rightarrow> rat list \<Rightarrow> rat list" where
  "flip_diagonal fl w h (x1 # y1 # x2 # y2 # rest) =
     fl (w - x2) # fl (h - y2) # fl (w - x1) # fl (h - y1) # flip_diagonal fl w h rest"
| "flip_diagonal fl w h row = row"





section \<open>Numbers: results of a floating-point division\<close>

text \<open>
  numpy divides by zero without raising: the quotient is an infinity, or NaN for
  \<open>0 / 0\<close>. \<open>np.maximum\<close> propagates NaN, and a comparison with NaN is false.
\<close>

datatype np_float = Fin rat | PInf | NInf | NaN

definition np_divide :: "(rat \<Rightarrow> rat) \<Rightarrow> rat \<Rightarrow> rat \<Rightarrow> np_float" where
  "np_divide fl a b =
     (if b \<noteq> 0 then Fin (fl (a / b))
      else if 0 < a then PInf else if a < 0 then NInf else NaN)"

fun np_maximum :: "np_float \<Rightarrow> np_float \<Rightarrow> np_float" where
  "np_maximum NaN b = NaN"
| "np_maximum a NaN = NaN"
| "np_maximum PInf b = PInf"
| "np_maximum a PInf = PInf"
| "np_maximum NInf b = b"
| "np_maximum a NInf = a"
| "np_maximum (Fin p) (Fin q) = Fin (max p q)"

fun np_less :: "np_float \<Rightarrow> rat \<Rightarrow> bool" where
  "np_less (Fin q) m = (q < m)"
| "np_less NInf m = True"
| "np_less PInf m = False"
| "np_less NaN m = False"

text \<open>
  Indexing an array with a boolean mask, \<open>xs[sel]\<close>: the entries at the positions where
  the mask is true; numpy raises IndexError when the mask is not as long as the array.
\<close>

definition np_bool_index :: "'a list \<Rightarrow> bool list \<Rightarrow> py_error + 'a list" where
  "np_bool_index xs sel =
     (if length sel \<noteq> length xs then Inl IndexError
      else Inr (map fst (filter snd (zip xs sel))))"

section \<open>transforms.py: GtBBoxesFilter\<close>

text \<open>A box is a row \<open>x1, y1, x2, y2\<close> of an array of shape \<open>(N, 4)\<close>.\<close>

type_synonym box = "rat \<times> rat \<times> rat \<times> rat"

record GtBBoxesFilter =
  min_size :: rat
  max_aspect_ratio :: rat

text \<open>The constructor: \<open>assert max_aspect_ratio > 1\<close>.\<close>

definition GtBBoxesFilter_init :: "rat \<Rightarrow> rat \<Rightarrow> py_error + GtBBoxesFilter" where
  "GtBBoxesFilter_init ms mar =
     (if 1 < mar then Inr \<lparr>min_size = ms, max_aspect_ratio = mar\<rparr> else Inl AssertionError)"

text \<open>
  The record that flows through the pipeline, as far as this transform reads it: the
  keys \<open>gt_bboxes\<close> and \<open>gt_labels\<close>. All other keys are the extension part of the
  record.
\<close>

record gt_sample =
  gt_bboxes :: "box list"
  gt_labels :: "int list"

text \<open>
  One entry of the mask \<open>valid\<close>:
  \<^verbatim>\<open>
  w = bboxes[:, 2] - bboxes[:, 0]
  h = bboxes[:, 3] - bboxes[:, 1]
  ar = np.maximum(w / (h + 1e-16), h / (w + 1e-16))
  valid = (w > self.min_size) & (h > self.min_size) & (ar < self.max_aspect_ratio)
  \<close>
  The scalars enter the arithmetic of the array, so they are rounded as its elements are.
\<close>

definition box_width :: "(rat \<Rightarrow> rat) \<Rightarrow> box \<Rightarrow> rat" where
  "box_width fl b = (case b of (x1, y1, x2, y2) \<Rightarrow> fl (x2 - x1))"

definition box_height :: "(rat \<Rightarrow> rat) \<Rightarrow> box \<Rightarrow> rat" where
  "box_height fl b = (case b of (x1, y1, x2, y2) \<Rightarrow> fl (y2 - y1))"

definition aspect_ratio :: "(rat \<Rightarrow> rat) \<Rightarrow> box \<Rightarrow> np_float" where
  "aspect_ratio fl b =
     (let w = box_width fl b; h = box_height fl b; eps = fl (1 / 10 ^ 16)
      in np_maximum (np_divide fl w (fl (h + eps))) (np_divide fl h (fl (w + eps))))"

definition box_valid :: "(rat \<Rightarrow> rat) \<Rightarrow> GtBBoxesFilter \<Rightarrow> box \<Rightarrow> bool" where
  "box_valid fl self b \<longleftrightarrow>
     fl (min_size self) < box_width fl b \<and> fl (min_size self) < box_height fl b \<and>
     np_less (aspect_ratio fl b) (fl (max_aspect_ratio self))"

text \<open>
  \<^verbatim>\<open>
  results["gt_bboxes"] = bboxes[valid]
  results["gt_labels"] = labels[valid]
  return results
  \<close>
\<close>

definition GtBBoxesFilter_call ::
  "(rat \<Rightarrow> rat) \<Rightarrow> GtBBoxesFilter \<Rightarrow> 'a gt_sample_scheme \<Rightarrow> py_error + 'a gt_sample_scheme" where
  "GtBBoxesFilter_call fl self results =
     (let bboxes = gt_bboxes results; labels = gt_labels results;
          valid = map (box_valid fl self) bboxes
      in case np_bool_index bboxes valid of
           Inl e \<Rightarrow> Inl e
         | Inr bboxes' \<Rightarrow>
             (case np_bool_index labels valid of
                Inl e \<Rightarrow> Inl e
              | Inr labels' \<Rightarrow> Inr (results\<lparr>gt_bboxes := bboxes', gt_labels := labels'\<rparr>)))"

section \<open>transforms.py: JointRandomCrop\<close>

text \<open>
  An image array of shape \<open>(img_h, img_w, ...)\<close>; \<open>pix\<close> gives the entry at a row and a
  column. The slice \<open>img[y1:y2, x1:x2]\<close> with bounds that are not negative stops at the
  edges of the array.
\<close>

record 'p image =
  img_h :: nat
  img_w :: nat
  pix :: "nat \<Rightarrow> nat \<Rightarrow> 'p"

definition np_slice2 :: "'p image \<Rightarrow> nat \<Rightarrow> nat \<Rightarrow> nat \<Rightarrow> nat \<Rightarrow> 'p image" where
  "np_slice2 img y1 y2 x1 x2 =
     \<lparr>img_h = min y2 (img_h img) - min y1 (img_h img),
      img_w = min x2 (img_w img) - min x1 (img_w img),
      pix = (\<lambda>y x. pix img (y1 + y) (x1 + x))\<rparr>"

text \<open>
  The record of a sample (a Python dictionary) as the crop transforms use it. The field
  lists may be absent (\<open>results.get(..., default)\<close>). The entries that the field lists
  name are kept by kind: image arrays, box arrays, label arrays, mask containers (a list
  of masks of an abstract type; cropping a mask is outside the sources) and segmentation
  maps. Every other key is in the extension part of the record.
\<close>

record ('p, 'm) crop_sample =
  img_fields :: "string list option"
  bbox_fields :: "string list option"
  seg_fields :: "string list option"
  imgs :: "string \<rightharpoonup> 'p image"
  boxes :: "string \<rightharpoonup> box list"
  labels :: "string \<rightharpoonup> int list"
  masks :: "string \<rightharpoonup> 'm list"
  segs :: "string \<rightharpoonup> 'p image"
  img_shape :: "(nat \<times> nat) option"

record JointRandomCrop =
  crop_size :: "nat \<times> nat"
  allow_negative_crop :: bool

text \<open>The constructor: \<open>assert crop_size[0] > 0 and crop_size[1] > 0\<close>.\<close>

definition JointRandomCrop_init :: "nat \<times> nat \<Rightarrow> bool \<Rightarrow> py_error + JointRandomCrop" where
  "JointRandomCrop_init cs allow =
     (if 0 < fst cs \<and> 0 < snd cs then Inr \<lparr>crop_size = cs, allow_negative_crop = allow\<rparr>
      else Inl AssertionError)"

text \<open>The key correspondence from boxes to labels and masks (\<open>dict.get\<close>).\<close>

definition bbox2label :: "string \<Rightarrow> string option" where
  "bbox2label key =
     (if key = ''gt_bboxes'' then Some ''gt_labels''
      else if key = ''gt_bboxes_ignore'' then Some ''gt_labels_ignore'' else None)"

definition bbox2mask :: "string \<Rightarrow> string option" where
  "bbox2mask key =
     (if key = ''gt_bboxes'' then Some ''gt_masks''
      else if key = ''gt_bboxes_ignore'' then Some ''gt_masks_ignore'' else None)"

text \<open>
  The field lists with their defaults: \<open>results.get("img_fields", ["img"])\<close>,
  \<open>results.get("bbox_fields", [])\<close>, \<open>results.get("seg_fields", [])\<close>.
\<close>

definition img_keys :: "('p, 'm, 'z) crop_sample_scheme \<Rightarrow> string list" where
  "img_keys results = (case img_fields results of None \<Rightarrow> [''img''] | Some ks \<Rightarrow> ks)"

definition bbox_keys :: "('p, 'm, 'z) crop_sample_scheme \<Rightarrow> string list" where
  "bbox_keys results = (case bbox_fields results of None \<Rightarrow> [] | Some ks \<Rightarrow> ks)"

definition seg_keys :: "('p, 'm, 'z) crop_sample_scheme \<Rightarrow> string list" where
  "seg_keys results = (case seg_fields results of None \<Rightarrow> [] | Some ks \<Rightarrow> ks)"

text \<open>
  The crop window of one image: the offsets, the bounds of the slice, and the shape of
  the cropped image.
\<close>

record crop_window =
  offset_h :: nat
  offset_w :: nat
  crop_y1 :: nat
  crop_y2 :: nat
  crop_x1 :: nat
  crop_x2 :: nat
  new_shape :: "nat \<times> nat"

text \<open>
  The loop over the image fields. The random numbers are the stream \<open>rand\<close>:
  \<open>np.random.randint(0, n)\<close> is the next number of the stream modulo \<open>n\<close>. The \<open>i\<close>-th
  image takes the numbers \<open>2 * i\<close> and \<open>2 * i + 1\<close>.
  \<^verbatim>\<open>
  for key in results.get("img_fields", ["img"]):
      img = results[key]
      margin_h = max(img.shape[0] - self.crop_size[0], 0)
      margin_w = max(img.shape[1] - self.crop_size[1], 0)
      offset_h = np.random.randint(0, margin_h + 1)
      offset_w = np.random.randint(0, margin_w + 1)
      crop_y1, crop_y2 = offset_h, offset_h + self.crop_size[0]
      crop_x1, crop_x2 = offset_w, offset_w + self.crop_size[1]
      img = img[crop_y1:crop_y2, crop_x1:crop_x2, ...]
      img_shape = img.shape
      results[key] = img
  \<close>
  The second component of the result is the window of the last image, if there was one.
\<close>

definition sample_window :: "JointRandomCrop \<Rightarrow> (nat \<Rightarrow> nat) \<Rightarrow> nat \<Rightarrow> 'p image \<Rightarrow> crop_window" where
  "sample_window self rand i img =
     (let margin_h = img_h img - fst (crop_size self);
          margin_w = img_w img - snd (crop_size self);
          oh = rand (2 * i) mod (margin_h + 1);
          ow = rand (2 * i + 1) mod (margin_w + 1);
          y1 = oh; y2 = oh + fst (crop_size self);
          x1 = ow; x2 = ow + snd (crop_size self);
          img' = np_slice2 img y1 y2 x1 x2
      in \<lparr>offset_h = oh, offset_w = ow, crop_y1 = y1, crop_y2 = y2, crop_x1 = x1, crop_x2 = x2,
          new_shape = (img_h img', img_w img')\<rparr>)"

fun crop_imgs ::
  "JointRandomCrop \<Rightarrow> (nat \<Rightarrow> nat) \<Rightarrow> string list \<Rightarrow> nat \<Rightarrow> ('p, 'm, 'z) crop_sample_scheme
     \<Rightarrow> crop_window option \<Rightarrow> py_error + (('p, 'm, 'z) crop_sample_scheme \<times> crop_window option)" where
  "crop_imgs self rand [] i results win = Inr (results, win)"
| "crop_imgs self rand (key # keys) i results win =
     (case imgs results key of
        None \<Rightarrow> Inl KeyError
      | Some img \<Rightarrow>
          (let cw = sample_window self rand i img;
               img' = np_slice2 img (crop_y1 cw) (crop_y2 cw) (crop_x1 cw) (crop_x2 cw)
           in crop_imgs self rand keys (Suc i)
                (results\<lparr>imgs := (imgs results)(key \<mapsto> img')\<rparr>) (Some cw)))"

text \<open>
  A box translated by the offsets and clipped to the cropped image:
  \<^verbatim>\<open>
  bbox_offset = np.array([offset_w, offset_h, offset_w, offset_h], dtype=np.float32)
  bboxes = results[key] - bbox_offset
  bboxes[:, 0::2] = np.clip(bboxes[:, 0::2], 0, img_shape[1])
  bboxes[:, 1::2] = np.clip(bboxes[:, 1::2], 0, img_shape[0])
  \<close>
\<close>

definition np_clip :: "rat \<Rightarrow> rat \<Rightarrow> rat \<Rightarrow> rat" where
  "np_clip x lo hi = min (max x lo) hi"

definition translate_clip :: "(rat \<Rightarrow> rat) \<Rightarrow> crop_window \<Rightarrow> box \<Rightarrow> box" where
  "translate_clip fl cw b =
     (case b of (x1, y1, x2, y2) \<Rightarrow>
        (let ow = fl (of_nat (offset_w cw)); oh = fl (of_nat (offset_h cw));
             W = fl (of_nat (snd (new_shape cw))); H = fl (of_nat (fst (new_shape cw)))
         in (np_clip (fl (x1 - ow)) 0 W, np_clip (fl (y1 - oh)) 0 H,
             np_clip (fl (x2 - ow)) 0 W, np_clip (fl (y2 - oh)) 0 H)))"

text \<open>\<open>valid_inds = (bboxes[:, 2] > bboxes[:, 0]) & (bboxes[:, 3] > bboxes[:, 1])\<close>\<close>

definition positive_box :: "box \<Rightarrow> bool" where
  "positive_box b = (case b of (x1, y1, x2, y2) \<Rightarrow> x1 < x2 \<and> y1 < y2)"

text \<open>
  Indexing a mask container with the array of the indices at which the mask is true,
  \<open>valid_inds.nonzero()[0]\<close>: an index beyond the container raises IndexError.
\<close>

definition nonzero :: "bool list \<Rightarrow> nat list" where
  "nonzero sel = filter (\<lambda>i. sel ! i) [0..<length sel]"

definition index_list :: "'a list \<Rightarrow> nat list \<Rightarrow> py_error + 'a list" where
  "index_list xs inds =
     (if \<forall>i \<in> set inds. i < length xs then Inr (map (\<lambda>i. xs ! i) inds) else Inl IndexError)"

text \<open>
  The label and mask entries that belong to a box field, filtered with the same mask;
  \<open>mask_crop\<close> is the \<open>crop\<close> method of a mask, outside the sources.
  \<^verbatim>\<open>
  label_key = self.bbox2label.get(key)
  if label_key in results:
      results[label_key] = results[label_key][valid_inds]
  mask_key = self.bbox2mask.get(key)
  if mask_key in results:
      results[mask_key] = results[mask_key][valid_inds.nonzero()[0]].crop(
          np.asarray([crop_x1, crop_y1, crop_x2, crop_y2]))
  \<close>
\<close>

definition filter_labels ::
  "string \<Rightarrow> bool list \<Rightarrow> ('p, 'm, 'z) crop_sample_scheme \<Rightarrow> py_error + ('p, 'm, 'z) crop_sample_scheme" where
  "filter_labels key valid_inds results =
     (case bbox2label key of
        None \<Rightarrow> Inr results
      | Some label_key \<Rightarrow>
          (case labels results label_key of
             None \<Rightarrow> Inr results
           | Some ls \<Rightarrow>
               (case np_bool_index ls valid_inds of
                  Inl e \<Rightarrow> Inl e
                | Inr ls' \<Rightarrow> Inr (results\<lparr>labels := (labels results)(label_key \<mapsto> ls')\<rparr>))))"

definition filter_masks ::
  "(nat \<times> nat \<times> nat \<times> nat \<Rightarrow> 'm \<Rightarrow> 'm) \<Rightarrow> nat \<times> nat \<times> nat \<times> nat \<Rightarrow> string \<Rightarrow> bool list
     \<Rightarrow> ('p, 'm, 'z) crop_sample_scheme \<Rightarrow> py_error + ('p, 'm, 'z) crop_sample_scheme" where
  "filter_masks mask_crop patch key valid_inds results =
     (case bbox2mask key of
        None \<Rightarrow> Inr results
      | Some mask_key \<Rightarrow>
          (case masks results mask_key of
             None \<Rightarrow> Inr results
           | Some ms \<Rightarrow>
               (case index_list ms (nonzero valid_inds) of
                  Inl e \<Rightarrow> Inl e
                | Inr ms' \<Rightarrow>
                    Inr (results\<lparr>masks := (masks results)(mask_key \<mapsto> map (mask_crop patch) ms')\<rparr>))))"

text \<open>
  The loop over the box fields; \<open>Inr None\<close> is the return of \<open>None\<close>.
  \<^verbatim>\<open>
  for key in results.get("bbox_fields", []):
      ...
      if (key == "gt_bboxes" and not valid_inds.any() and not self.allow_negative_crop):
          return None
      results[key] = bboxes[valid_inds, :]
      ...
  \<close>
\<close>

fun crop_bboxes ::
  "(rat \<Rightarrow> rat) \<Rightarrow> (nat \<times> nat \<times> nat \<times> nat \<Rightarrow> 'm \<Rightarrow> 'm) \<Rightarrow> JointRandomCrop \<Rightarrow> crop_window
     \<Rightarrow> string list \<Rightarrow> ('p, 'm, 'z) crop_sample_scheme
     \<Rightarrow> py_error + ('p, 'm, 'z) crop_sample_scheme option" where
  "crop_bboxes fl mask_crop self cw [] results = Inr (Some results)"
| "crop_bboxes fl mask_crop self cw (key # keys) results =
     (case boxes results key of
        None \<Rightarrow> Inl KeyError
      | Some bs \<Rightarrow>
          (let bboxes = map (translate_clip fl cw) bs;
               valid_inds = map positive_box bboxes
           in if key = ''gt_bboxes'' \<and> \<not> list_ex (\<lambda>v. v) valid_inds \<and> \<not> allow_negative_crop self
              then Inr None
              else
                (case np_bool_index bboxes valid_inds of
                   Inl e \<Rightarrow> Inl e
                 | Inr bboxes' \<Rightarrow>
                     (case filter_labels key valid_inds
                             (results\<lparr>boxes := (boxes results)(key \<mapsto> bboxes')\<rparr>) of
                        Inl e \<Rightarrow> Inl e
                      | Inr results1 \<Rightarrow>
                          (case filter_masks mask_crop
                                  (crop_x1 cw, crop_y1 cw, crop_x2 cw, crop_y2 cw)
                                  key valid_inds results1 of
                             Inl e \<Rightarrow> Inl e
                           | Inr results2 \<Rightarrow>
                               crop_bboxes fl mask_crop self cw keys results2)))))"

text \<open>
  \<^verbatim>\<open>
  for key in results.get("seg_fields", []):
      results[key] = results[key][crop_y1:crop_y2, crop_x1:crop_x2]
  \<close>
\<close>

fun crop_segs ::
  "crop_window \<Rightarrow> string list \<Rightarrow> ('p, 'm, 'z) crop_sample_scheme
     \<Rightarrow> py_error + ('p, 'm, 'z) crop_sample_scheme" where
  "crop_segs cw [] results = Inr results"
| "crop_segs cw (key # keys) results =
     (case segs results key of
        None \<Rightarrow> Inl KeyError
      | Some seg \<Rightarrow>
          crop_segs cw keys
            (results\<lparr>segs := (segs results)
               (key \<mapsto> np_slice2 seg (crop_y1 cw) (crop_y2 cw) (crop_x1 cw) (crop_x2 cw))\<rparr>))"

text \<open>
  \<open>JointRandomCrop.__call__\<close>. With an empty list of image fields the name
  \<open>img_shape\<close> is read before it is bound.
\<close>

definition JointRandomCrop_call ::
  "(rat \<Rightarrow> rat) \<Rightarrow> (nat \<times> nat \<times> nat \<times> nat \<Rightarrow> 'm \<Rightarrow> 'm) \<Rightarrow> JointRandomCrop \<Rightarrow> (nat \<Rightarrow> nat)
     \<Rightarrow> ('p, 'm, 'z) crop_sample_scheme \<Rightarrow> py_error + ('p, 'm, 'z) crop_sample_scheme option" where
  "JointRandomCrop_call fl mask_crop self rand results =
     (case crop_imgs self rand (img_keys results) 0 results None of
        Inl e \<Rightarrow> Inl e
      | Inr (results1, None) \<Rightarrow> Inl UnboundLocalError
      | Inr (results1, Some cw) \<Rightarrow>
          (case crop_bboxes fl mask_crop self cw
                  (bbox_keys results1)
                  (results1\<lparr>img_shape := Some (new_shape cw)\<rparr>) of
             Inl e \<Rightarrow> Inl e
           | Inr None \<Rightarrow> Inr None
           | Inr (Some results2) \<Rightarrow>
               (case crop_segs cw (seg_keys results2) results2 of
                  Inl e \<Rightarrow> Inl e
                | Inr results3 \<Rightarrow> Inr (Some results3))))"

text \<open>
  A box field of a record is aligned when its box array is present, its label array (if
  the record has one) is as long as the box array, and its mask container (if the record
  has one) holds at least as many masks.
\<close>

definition field_aligned :: "('p, 'm, 'z) crop_sample_scheme \<Rightarrow> string \<Rightarrow> bool" where
  "field_aligned results key =
     (case boxes results key of
        None \<Rightarrow> False
      | Some bs \<Rightarrow>
          (case bbox2label key of
             None \<Rightarrow> True
           | Some lk \<Rightarrow> (case labels results lk of None \<Rightarrow> True | Some ls \<Rightarrow> length ls = length bs)) \<and>
          (case bbox2mask key of
             None \<Rightarrow> True
           | Some mk \<Rightarrow> (case masks results mk of None \<Rightarrow> True | Some ms \<Rightarrow> length bs \<le> length ms)))"

section \<open>Properties of the label mapping\<close>










section \<open>Properties of the fusion step\<close>

lemma fuse_annotations_ok:
  "\<forall>ann\<in>set anns. ann_id ann \<in> dom pred_dict \<Longrightarrow>
   fuse_annotations pred_dict score_thr anns acc =
     Inr (acc @ map (\<lambda>ann. ann\<lparr>category_id := the (pred_dict (ann_id ann))\<rparr>)
                  (filter (\<lambda>ann. score_thr \<le> score ann) anns))"
proof (induction anns arbitrary: acc)
  case Nil
  then show ?case by simp
next
  case (Cons a anns)
  then obtain l where l: "pred_dict (ann_id a) = Some l" by auto
  from Cons have IH: "\<And>acc. fuse_annotations pred_dict score_thr anns acc =
     Inr (acc @ map (\<lambda>ann. ann\<lparr>category_id := the (pred_dict (ann_id ann))\<rparr>)
                  (filter (\<lambda>ann. score_thr \<le> score ann) anns))" by simp
  show ?case by (simp add: l IH not_less)
qed

lemma fuse_annotations_missing:
  "\<exists>ann\<in>set anns. ann_id ann \<notin> dom pred_dict \<Longrightarrow>
   fuse_annotations pred_dict score_thr anns acc = Inl AssertionError"
proof (induction anns arbitrary: acc)
  case Nil
  then show ?case by simp
next
  case (Cons a anns)
  show ?case
  proof (cases "pred_dict (ann_id a)")
    case None
    then show ?thesis by simp
  next
    case (Some l)
    with Cons.prems have "\<exists>ann\<in>set anns. ann_id ann \<notin> dom pred_dict" by auto
    then have "\<And>acc. fuse_annotations pred_dict score_thr anns acc = Inl AssertionError"
      by (rule Cons.IH)
    then show ?thesis by (simp add: Some)
  qed
qed

lemma build_pred_dict_total:
  "i + length ids \<le> length lbls \<Longrightarrow>
   \<exists>d. build_pred_dict ids lbls i d0 = Inr d \<and> dom d = dom d0 \<union> set ids"
proof (induction ids arbitrary: i d0)
  case Nil
  then show ?case by simp
next
  case (Cons b ids)
  then have "Suc i + length ids \<le> length lbls" and lt: "i < length lbls" by simp_all
  from Cons.IH [OF this(1), of "d0(b \<mapsto> lbls ! i)"]
  obtain d where "build_pred_dict ids lbls (Suc i) (d0(b \<mapsto> lbls ! i)) = Inr d"
    and "dom d = dom (d0(b \<mapsto> lbls ! i)) \<union> set ids" by blast
  then show ?case using lt by auto
qed

text \<open>
  Claim C2. When the dictionary built from the inference outputs covers the id of every
  annotation of the detection JSON, \<open>save_submit_json\<close> raises nothing and writes the
  input JSON with its annotation list replaced: the annotations whose score is at least
  the threshold, in input order, each with \<open>category_id\<close> set to the label of its id.
  The other fields of an annotation and the \<open>images\<close> list are those of the input;
  annotations below the threshold are absent.
\<close>

theorem save_submit_json_fuses:
  assumes "pred_dict_of outputs top_k = Inr pred_dict"
    and "\<forall>ann\<in>set (annotations data_ori). ann_id ann \<in> dom pred_dict"
  shows "save_submit_json outputs data_ori out_file score_thr top_k =
           (None, Some (data_ori\<lparr>annotations :=
              map (\<lambda>ann. ann\<lparr>category_id := the (pred_dict (ann_id ann))\<rparr>)
                (filter (\<lambda>ann. score_thr \<le> score ann) (annotations data_ori))\<rparr>))"
  using assms
  by (auto simp: save_submit_json_def fused_json_def pred_dict_of_def fuse_annotations_ok
           split: option.splits sum.splits)

theorem save_submit_json_fuses_witness:
  "pred_dict_of \<lparr>bbox_ids = [5, 6], labels_top = [1 \<mapsto> [10, 11]]\<rparr> 1 = Inr [5 \<mapsto> 10, 6 \<mapsto> 11] \<and>
   save_submit_json \<lparr>bbox_ids = [5, 6], labels_top = [1 \<mapsto> [10, 11]]\<rparr>
     \<lparr>images = [''a.jpg''],
      annotations =
        [\<lparr>ann_id = 5, image_id = 0, bbox = [0, 0, 4, 4], category_id = 0, score = 8 / 10\<rparr>,
         \<lparr>ann_id = 6, image_id = 0, bbox = [1, 1, 2, 2], category_id = 0, score = 5 / 100\<rparr>]\<rparr>
     None (1 / 10) 1 =
   (None, Some \<lparr>images = [''a.jpg''],
      annotations =
        [\<lparr>ann_id = 5, image_id = 0, bbox = [0, 0, 4, 4], category_id = 10, score = 8 / 10\<rparr>]\<rparr>)"
  using save_submit_json_fuses
    [of "\<lparr>bbox_ids = [5, 6], labels_top = [1 \<mapsto> [10, 11]]\<rparr>" 1 "[5 \<mapsto> 10, 6 \<mapsto> 11]"
        "\<lparr>images = [''a.jpg''],
          annotations =
            [\<lparr>ann_id = 5, image_id = 0, bbox = [0, 0, 4, 4], category_id = 0, score = 8 / 10\<rparr>,
             \<lparr>ann_id = 6, image_id = 0, bbox = [1, 1, 2, 2], category_id = 0, score = 5 / 100\<rparr>]\<rparr>"
        None "1 / 10"]
  by (simp add: pred_dict_of_def)

text \<open>
  Claim C3. For inference outputs that carry one label per bounding-box id under the
  requested rank, \<open>save_submit_json\<close> raises (the assertion fails, and the file at the
  output path keeps its previous state) if some annotation of the detection JSON has an
  id that is not among the bounding-box ids of the outputs, and otherwise raises nothing
  and writes the output file.
\<close>

theorem save_submit_json_error_iff:
  assumes "labels_top outputs top_k = Some lbls"
    and "length (bbox_ids outputs) \<le> length lbls"
  shows "if \<exists>ann\<in>set (annotations data_ori). ann_id ann \<notin> set (bbox_ids outputs)
         then save_submit_json outputs data_ori out_file score_thr top_k
                = (Some AssertionError, out_file)
         else \<exists>data_new. save_submit_json outputs data_ori out_file score_thr top_k
                = (None, Some data_new)"
proof -
  from assms(2) build_pred_dict_total [of 0 "bbox_ids outputs" lbls Map.empty]
  obtain d where d: "build_pred_dict (bbox_ids outputs) lbls 0 Map.empty = Inr d"
    and dom: "dom d = set (bbox_ids outputs)" by auto
  show ?thesis
  proof (cases "\<exists>ann\<in>set (annotations data_ori). ann_id ann \<notin> set (bbox_ids outputs)")
    case True
    then have "\<exists>ann\<in>set (annotations data_ori). ann_id ann \<notin> dom d" by (simp add: dom)
    then have "fuse_annotations d score_thr (annotations data_ori) [] = Inl AssertionError"
      by (rule fuse_annotations_missing)
    with True show ?thesis by (simp add: save_submit_json_def fused_json_def assms(1) d)
  next
    case False
    then have "\<forall>ann\<in>set (annotations data_ori). ann_id ann \<in> dom d" by (simp add: dom)
    from fuse_annotations_ok [OF this, of score_thr "[]"] False
    show ?thesis by (simp add: save_submit_json_def fused_json_def assms(1) d)
  qed
qed

text \<open>The annotation with id 7 has no label, and its score is below the threshold.\<close>

theorem save_submit_json_error_iff_witness:
  "labels_top \<lparr>bbox_ids = [5, 6], labels_top = [1 \<mapsto> [10, 11]]\<rparr> 1 = Some [10, 11] \<and>
   length (bbox_ids \<lparr>bbox_ids = [5, 6], labels_top = [1 \<mapsto> [10, 11]]\<rparr>) \<le> length [10, 11 :: int] \<and>
   save_submit_json \<lparr>bbox_ids = [5, 6], labels_top = [1 \<mapsto> [10, 11]]\<rparr>
     \<lparr>images = [''a.jpg''],
      annotations =
        [\<lparr>ann_id = 5, image_id = 0, bbox = [0, 0, 4, 4], category_id = 0, score = 8 / 10\<rparr>,
         \<lparr>ann_id = 7, image_id = 0, bbox = [1, 1, 2, 2], category_id = 0, score = 5 / 100\<rparr>]\<rparr>
     None (1 / 10) 1 =
   (Some AssertionError, None)"
  using save_submit_json_error_iff
    [of "\<lparr>bbox_ids = [5, 6], labels_top = [1 \<mapsto> [10, 11]]\<rparr>" 1 "[10, 11]"
        "\<lparr>images = [''a.jpg''],
          annotations =
            [\<lparr>ann_id = 5, image_id = 0, bbox = [0, 0, 4, 4], category_id = 0, score = 8 / 10\<rparr>,
             \<lparr>ann_id = 7, image_id = 0, bbox = [1, 1, 2, 2], category_id = 0, score = 5 / 100\<rparr>]\<rparr>"
        None "1 / 10"]
  by simp

section \<open>Properties of the label inference\<close>

text \<open>
  For the rank 1 the loop stores the first column of \<open>pred_labels\<close> as it is: the label
  mapping is not consulted.
\<close>

lemma rank_loop_top_1:
  "0 < n_ref \<Longrightarrow>
   rank_loop label_mapping n_ref pred_labels [1] result =
     Inr (result\<lparr>labels_top := (labels_top result)(1 \<mapsto> map (\<lambda>row. row ! 0) pred_labels)\<rparr>)"
  by simp

text \<open>
  Claim C1, on the scenario of the specification: references \<open>[0,0]\<close> and \<open>[10,10]\<close>
  labelled 1 and 2, one query \<open>[0.1,0.1]\<close> with bounding-box id 5, the label mapping
  \<open>{1: 10, 2: 11}\<close>. For the rank list \<open>[1]\<close>, \<open>infer_labels\<close> returns the
  reference label 1 of the nearest neighbour, not mapped, while the majority-vote path
  with \<open>k = 1\<close> on the same sorted labels returns the mapped label 10.
\<close>

theorem infer_labels_top_1_not_mapped:
  "infer_labels sq_euclid
     \<lparr>qry_embeddings = [[1 / 10, 1 / 10]], qry_bbox_ids = [5]\<rparr>
     \<lparr>ref_embeddings = [[0, 0], [10, 10]], ref_labels = [1, 2]\<rparr>
     [1 \<mapsto> 10, 2 \<mapsto> 11] [1]
     = Inr \<lparr>bbox_ids = [5], labels_top = [1 \<mapsto> [1]]\<rparr> \<and>
   vote_labels [1 \<mapsto> 10, 2 \<mapsto> 11] 1 [[1, 2]] = Inr [10]"
  by (simp add: infer_labels_def distance_matrix_def sq_euclid_def np_argsort_def upt_rec
        take_labels_def vote_labels_def vote_label_def py_slice_to_def Counter_def)

section \<open>Properties of the mask test mixin\<close>

text \<open>
  Claim C9. When the detected-box tensor of every image is empty, the result of
  \<open>simple_test_mask\<close> is, for each image, a list of \<open>num_classes\<close> empty lists, and
  the log of calls is empty: neither the mask forward pass nor the mask decode of any
  image was invoked.
\<close>

theorem simple_test_mask_all_empty:
  assumes "\<forall>det_bbox\<in>set det_bboxes. length det_bbox = 0"
  shows "simple_test_mask mh x img_metas det_bboxes det_labels rescale =
           Inr (replicate (length det_bboxes) (replicate (num_classes mh) []), [])"
  using assms by (simp add: simple_test_mask_def list_all_iff)

theorem simple_test_mask_all_empty_witness:
  "simple_test_mask
     \<lparr>num_classes = 3, bbox2roi = (\<lambda>_. ()), mask_forward = (\<lambda>_ _. ()),
      split_preds = (\<lambda>_ ns. map (\<lambda>_. ()) ns),
      get_seg_masks = (\<lambda>_ _ _ _ _ _. [[0 :: nat]]), scale_bboxes = (\<lambda>b (_ :: rat). b)\<rparr>
     () [] [[], []] [[], []] False =
   Inr ([[[], [], []], [[], [], []]], [])"
  using simple_test_mask_all_empty
    [of "[[], []]"
        "\<lparr>num_classes = 3, bbox2roi = (\<lambda>_. ()), mask_forward = (\<lambda>_ _. ()),
          split_preds = (\<lambda>_ ns. map (\<lambda>_. ()) ns),
          get_seg_masks = (\<lambda>_ _ _ _ _ _. [[0 :: nat]]), scale_bboxes = (\<lambda>b (_ :: rat). b)\<rparr>"
        "()" "[]" "[[], []]" False]
  by (simp add: numeral_3_eq_3)

section \<open>Properties of the box flip\<close>

lemma flip_horizontal_length [simp]: "length (flip_horizontal fl w row) = length row"
  by (induction fl w row rule: flip_horizontal.induct) simp_all

lemma flip_vertical_length [simp]: "length (flip_vertical fl h row) = length row"
  by (induction fl h row rule: flip_vertical.induct) simp_all

lemma flip_diagonal_length [simp]: "length (flip_diagonal fl w h row) = length row"
  by (induction fl w h row rule: flip_diagonal.induct) simp_all







section \<open>Properties of the ground-truth box filter\<close>

lemma np_bool_index_nths:
  "length sel = length xs \<Longrightarrow>
   np_bool_index xs sel = Inr (map (\<lambda>i. xs ! i) (filter (\<lambda>i. sel ! i) [0..<length xs]))"
proof (induction xs arbitrary: sel rule: rev_induct)
  case Nil
  then show ?case by (simp add: np_bool_index_def)
next
  case (snoc x xs)
  then obtain m ms where sel: "sel = ms @ [m]" and len: "length ms = length xs"
    by (cases sel rule: rev_cases) auto
  from snoc.IH [OF len] len
  have IH: "map fst (filter snd (zip xs ms)) = map (\<lambda>i. xs ! i) (filter (\<lambda>i. ms ! i) [0..<length xs])"
    by (simp add: np_bool_index_def)
  have a: "filter (\<lambda>i. (ms @ [m]) ! i) [0..<length xs] = filter (\<lambda>i. ms ! i) [0..<length xs]"
    using len by (intro filter_cong) (auto simp: nth_append)
  have m: "(ms @ [m]) ! length xs = m"
    using nth_append_length [of ms m] by (simp add: len)
  have c: "filter (\<lambda>i. (ms @ [m]) ! i) [0..<length (xs @ [x])]
         = filter (\<lambda>i. ms ! i) [0..<length xs] @ (if m then [length xs] else [])"
    by (simp add: a m)
  have b: "map (\<lambda>i. (xs @ [x]) ! i) (filter (\<lambda>i. ms ! i) [0..<length xs])
         = map (\<lambda>i. xs ! i) (filter (\<lambda>i. ms ! i) [0..<length xs])"
    by (intro map_cong) (auto simp: nth_append)
  have "np_bool_index (xs @ [x]) (ms @ [m])
        = Inr (map fst (filter snd (zip xs ms)) @ (if m then [x] else []))"
    using len by (simp add: np_bool_index_def)
  also have "map fst (filter snd (zip xs ms)) @ (if m then [x] else [])
        = map (\<lambda>i. (xs @ [x]) ! i) (filter (\<lambda>i. (ms @ [m]) ! i) [0..<length (xs @ [x])])"
    unfolding c by (simp add: b IH)
  finally show ?case by (simp add: sel)
qed

text \<open>
  Claim C10. For a record whose labels are aligned with its boxes, \<open>GtBBoxesFilter\<close>
  returns the record with \<open>gt_bboxes\<close> and \<open>gt_labels\<close> replaced by their entries at
  one and the same list of indices, every other field being as it was. The indices are
  those of the valid boxes, in ascending order, so the kept boxes are exactly the valid
  boxes; and a box is valid exactly when its width and its height exceed \<open>min_size\<close>
  and its aspect ratio, the maximum of \<open>w / (h + 1e-16)\<close> and \<open>h / (w + 1e-16)\<close>, is
  strictly below \<open>max_aspect_ratio\<close>.
\<close>

theorem GtBBoxesFilter_aligned:
  assumes "length (gt_labels results) = length (gt_bboxes results)"
  shows "GtBBoxesFilter_call fl self results =
           Inr (results
             \<lparr>gt_bboxes := map (\<lambda>i. gt_bboxes results ! i)
                 (filter (\<lambda>i. box_valid fl self (gt_bboxes results ! i))
                    [0..<length (gt_bboxes results)]),
              gt_labels := map (\<lambda>i. gt_labels results ! i)
                 (filter (\<lambda>i. box_valid fl self (gt_bboxes results ! i))
                    [0..<length (gt_bboxes results)])\<rparr>) \<and>
         map (\<lambda>i. gt_bboxes results ! i)
           (filter (\<lambda>i. box_valid fl self (gt_bboxes results ! i)) [0..<length (gt_bboxes results)])
           = filter (box_valid fl self) (gt_bboxes results) \<and>
         (\<forall>b. box_valid fl self b \<longleftrightarrow>
            fl (min_size self) < box_width fl b \<and> fl (min_size self) < box_height fl b \<and>
            np_less (np_maximum (np_divide fl (box_width fl b) (fl (box_height fl b + fl (1 / 10 ^ 16))))
                                (np_divide fl (box_height fl b) (fl (box_width fl b + fl (1 / 10 ^ 16)))))
                    (fl (max_aspect_ratio self)))"
proof -
  let ?n = "length (gt_bboxes results)"
  let ?valid = "map (box_valid fl self) (gt_bboxes results)"
  have f: "filter (\<lambda>i. ?valid ! i) [0..<?n] = filter (\<lambda>i. box_valid fl self (gt_bboxes results ! i)) [0..<?n]"
    by (intro filter_cong) auto
  have 1: "np_bool_index (gt_bboxes results) ?valid =
     Inr (map (\<lambda>i. gt_bboxes results ! i) (filter (\<lambda>i. box_valid fl self (gt_bboxes results ! i)) [0..<?n]))"
    using np_bool_index_nths [of ?valid "gt_bboxes results"] by (simp add: f)
  have 2: "np_bool_index (gt_labels results) ?valid =
     Inr (map (\<lambda>i. gt_labels results ! i) (filter (\<lambda>i. box_valid fl self (gt_bboxes results ! i)) [0..<?n]))"
    using np_bool_index_nths [of ?valid "gt_labels results"] assms by (simp add: f)
  have 3: "map (\<lambda>i. gt_bboxes results ! i)
           (filter (\<lambda>i. box_valid fl self (gt_bboxes results ! i)) [0..<?n])
           = filter (box_valid fl self) (gt_bboxes results)"
  proof -
    have "filter (box_valid fl self) (map (\<lambda>i. gt_bboxes results ! i) [0..<?n])
          = filter (box_valid fl self) (gt_bboxes results)"
      by (simp add: map_nth)
    then show ?thesis by (simp add: filter_map comp_def)
  qed
  have 0: "GtBBoxesFilter_call fl self results =
           Inr (results
             \<lparr>gt_bboxes := map (\<lambda>i. gt_bboxes results ! i)
                 (filter (\<lambda>i. box_valid fl self (gt_bboxes results ! i)) [0..<?n]),
              gt_labels := map (\<lambda>i. gt_labels results ! i)
                 (filter (\<lambda>i. box_valid fl self (gt_bboxes results ! i)) [0..<?n])\<rparr>)"
    by (simp add: GtBBoxesFilter_call_def Let_def 1 2)
  have 4: "\<forall>b. box_valid fl self b \<longleftrightarrow>
            fl (min_size self) < box_width fl b \<and> fl (min_size self) < box_height fl b \<and>
            np_less (np_maximum (np_divide fl (box_width fl b) (fl (box_height fl b + fl (1 / 10 ^ 16))))
                                (np_divide fl (box_height fl b) (fl (box_width fl b + fl (1 / 10 ^ 16)))))
                    (fl (max_aspect_ratio self))"
    by (simp add: box_valid_def aspect_ratio_def Let_def)
  from 0 3 4 show ?thesis by blast
qed

text \<open>
  Three \<open>float32\<close> boxes with the default thresholds 2 and 20: the second is too narrow,
  the third too elongated.
\<close>

theorem GtBBoxesFilter_aligned_witness:
  "GtBBoxesFilter_call fl32 \<lparr>min_size = 2, max_aspect_ratio = 20\<rparr>
     \<lparr>gt_bboxes = [(0, 0, 10, 10), (0, 0, 1, 10), (0, 0, 100, 3)], gt_labels = [7, 8, 9]\<rparr>
   = Inr \<lparr>gt_bboxes = [(0, 0, 10, 10)], gt_labels = [7]\<rparr>"
proof -
  let ?r = "\<lparr>gt_bboxes = [(0, 0, 10, 10), (0, 0, 1, 10), (0, 0, 100, 3)], gt_labels = [7, 8, 9]\<rparr>"
  let ?self = "\<lparr>min_size = 2, max_aspect_ratio = 20\<rparr>"
  have "length (gt_labels ?r) = length (gt_bboxes ?r)" by simp
  from GtBBoxesFilter_aligned [OF this, of fl32 ?self]
  have "GtBBoxesFilter_call fl32 ?self ?r =
          Inr (?r\<lparr>gt_bboxes := map (\<lambda>i. gt_bboxes ?r ! i)
                 (filter (\<lambda>i. box_valid fl32 ?self (gt_bboxes ?r ! i)) [0..<length (gt_bboxes ?r)]),
               gt_labels := map (\<lambda>i. gt_labels ?r ! i)
                 (filter (\<lambda>i. box_valid fl32 ?self (gt_bboxes ?r ! i)) [0..<length (gt_bboxes ?r)])\<rparr>)"
    by blast
  also have "?r\<lparr>gt_bboxes := map (\<lambda>i. gt_bboxes ?r ! i)
                 (filter (\<lambda>i. box_valid fl32 ?self (gt_bboxes ?r ! i)) [0..<length (gt_bboxes ?r)]),
               gt_labels := map (\<lambda>i. gt_labels ?r ! i)
                 (filter (\<lambda>i. box_valid fl32 ?self (gt_bboxes ?r ! i)) [0..<length (gt_bboxes ?r)])\<rparr>
             = \<lparr>gt_bboxes = [(0, 0, 10, 10)], gt_labels = [7]\<rparr>"
    by code_simp
  finally show ?thesis .
qed

section \<open>Properties of the random crop\<close>

lemma bbox2label_inj: "bbox2label k = Some lk \<Longrightarrow> bbox2label k' = Some lk \<Longrightarrow> k = k'"
  by (auto simp: bbox2label_def split: if_splits)

lemma bbox2mask_inj: "bbox2mask k = Some mk \<Longrightarrow> bbox2mask k' = Some mk \<Longrightarrow> k = k'"
  by (auto simp: bbox2mask_def split: if_splits)

lemma crop_imgs_fields:
  "crop_imgs self rand keys i results win = Inr (results1, win1) \<Longrightarrow>
   boxes results1 = boxes results \<and> labels results1 = labels results \<and>
   masks results1 = masks results \<and> segs results1 = segs results \<and>
   bbox_fields results1 = bbox_fields results \<and> seg_fields results1 = seg_fields results"
proof (induction keys arbitrary: i results win)
  case Nil
  then show ?case by simp
next
  case (Cons key keys)
  then show ?case by (auto split: option.splits simp: Let_def dest!: Cons.IH)
qed

lemma crop_imgs_total:
  "\<forall>k \<in> set keys. imgs results k \<noteq> None \<Longrightarrow>
   \<exists>results1 win1. crop_imgs self rand keys i results win = Inr (results1, win1) \<and>
      (keys \<noteq> [] \<or> win \<noteq> None \<longrightarrow> win1 \<noteq> None)"
proof (induction keys arbitrary: i results win)
  case Nil
  then show ?case by simp
next
  case (Cons key keys)
  then obtain img where img: "imgs results key = Some img" by auto
  let ?cw = "sample_window self rand i img"
  let ?r = "results\<lparr>imgs := (imgs results)(key \<mapsto>
              np_slice2 img (crop_y1 ?cw) (crop_y2 ?cw) (crop_x1 ?cw) (crop_x2 ?cw))\<rparr>"
  from Cons.prems have "\<forall>k \<in> set keys. imgs ?r k \<noteq> None" by simp
  from Cons.IH [OF this, of "Suc i" "Some ?cw"]
  show ?case by (simp add: img Let_def)
qed

lemma np_bool_index_same_length:
  "length sel = length xs \<Longrightarrow> np_bool_index xs sel = Inr (map fst (filter snd (zip xs sel)))"
  by (simp add: np_bool_index_def)

lemma zip_map_filter:
  "map fst (filter snd (zip xs (map P xs))) = filter P xs"
  by (induction xs) simp_all

lemma filter_labels_ok:
  assumes "\<forall>lk ls. bbox2label key = Some lk \<longrightarrow> labels r lk = Some ls \<longrightarrow> length ls = length valid"
  shows "\<exists>L. filter_labels key valid r = Inr (r\<lparr>labels := L\<rparr>) \<and>
             (\<forall>lk. bbox2label key \<noteq> Some lk \<longrightarrow> L lk = labels r lk)"
proof (cases "bbox2label key")
  case None
  then have "filter_labels key valid r = Inr (r\<lparr>labels := labels r\<rparr>)"
    by (simp add: filter_labels_def)
  then show ?thesis by blast
next
  case (Some lk)
  show ?thesis
  proof (cases "labels r lk")
    case None
    with Some have "filter_labels key valid r = Inr (r\<lparr>labels := labels r\<rparr>)"
      by (simp add: filter_labels_def)
    then show ?thesis by blast
  next
    case (Some ls)
    with \<open>bbox2label key = Some lk\<close> assms have "length valid = length ls" by simp
    with Some \<open>bbox2label key = Some lk\<close>
    have "filter_labels key valid r =
            Inr (r\<lparr>labels := (labels r)(lk \<mapsto> map fst (filter snd (zip ls valid)))\<rparr>)"
      by (simp add: filter_labels_def np_bool_index_def)
    moreover have "\<forall>lk'. bbox2label key \<noteq> Some lk' \<longrightarrow>
        ((labels r)(lk \<mapsto> map fst (filter snd (zip ls valid)))) lk' = labels r lk'"
      using \<open>bbox2label key = Some lk\<close> by auto
    ultimately show ?thesis by blast
  qed
qed

lemma nonzero_bound: "i \<in> set (nonzero sel) \<Longrightarrow> i < length sel"
  by (simp add: nonzero_def)

lemma filter_masks_ok:
  assumes "\<forall>mk ms. bbox2mask key = Some mk \<longrightarrow> masks r mk = Some ms \<longrightarrow> length valid \<le> length ms"
  shows "\<exists>M. filter_masks mask_crop patch key valid r = Inr (r\<lparr>masks := M\<rparr>) \<and>
             (\<forall>mk. bbox2mask key \<noteq> Some mk \<longrightarrow> M mk = masks r mk)"
proof (cases "bbox2mask key")
  case None
  then have "filter_masks mask_crop patch key valid r = Inr (r\<lparr>masks := masks r\<rparr>)"
    by (simp add: filter_masks_def)
  then show ?thesis by blast
next
  case (Some mk)
  show ?thesis
  proof (cases "masks r mk")
    case None
    with Some have "filter_masks mask_crop patch key valid r = Inr (r\<lparr>masks := masks r\<rparr>)"
      by (simp add: filter_masks_def)
    then show ?thesis by blast
  next
    case (Some ms)
    with \<open>bbox2mask key = Some mk\<close> assms have "length valid \<le> length ms" by simp
    then have "\<forall>i \<in> set (nonzero valid). i < length ms"
      using nonzero_bound by fastforce
    with Some \<open>bbox2mask key = Some mk\<close>
    have "filter_masks mask_crop patch key valid r =
            Inr (r\<lparr>masks := (masks r)(mk \<mapsto> map (mask_crop patch) (map (\<lambda>i. ms ! i) (nonzero valid)))\<rparr>)"
      by (simp add: filter_masks_def index_list_def)
    moreover have "\<forall>mk'. bbox2mask key \<noteq> Some mk' \<longrightarrow>
        ((masks r)(mk \<mapsto> map (mask_crop patch) (map (\<lambda>i. ms ! i) (nonzero valid)))) mk' = masks r mk'"
      using \<open>bbox2mask key = Some mk\<close> by auto
    ultimately show ?thesis by blast
  qed
qed

text \<open>One pass of the loop over the box fields, for a key that does not reject.\<close>

lemma crop_bboxes_step:
  assumes al: "field_aligned results key"
    and bs: "boxes results key = Some bs"
    and go: "\<not> (key = ''gt_bboxes'' \<and> \<not> (\<exists>b \<in> set bs. positive_box (translate_clip fl cw b))
                 \<and> \<not> allow_negative_crop self)"
  shows "\<exists>L M. crop_bboxes fl mask_crop self cw (key # keys) results =
           crop_bboxes fl mask_crop self cw keys
             (results\<lparr>boxes := (boxes results)
                        (key \<mapsto> filter positive_box (map (translate_clip fl cw) bs)),
                      labels := L, masks := M\<rparr>) \<and>
           (\<forall>lk. bbox2label key \<noteq> Some lk \<longrightarrow> L lk = labels results lk) \<and>
           (\<forall>mk. bbox2mask key \<noteq> Some mk \<longrightarrow> M mk = masks results mk)"
proof -
  let ?bb = "map (translate_clip fl cw) bs"
  let ?valid = "map positive_box ?bb"
  let ?r0 = "results\<lparr>boxes := (boxes results)(key \<mapsto> filter positive_box ?bb)\<rparr>"
  have sel: "np_bool_index ?bb ?valid = Inr (filter positive_box ?bb)"
    using zip_map_filter [of ?bb positive_box] by (simp add: np_bool_index_def del: map_map)
  have "\<forall>lk ls. bbox2label key = Some lk \<longrightarrow> labels ?r0 lk = Some ls \<longrightarrow> length ls = length ?valid"
    using al bs by (auto simp: field_aligned_def)
  from filter_labels_ok [OF this]
  obtain L where L: "filter_labels key ?valid ?r0 = Inr (?r0\<lparr>labels := L\<rparr>)"
    and L': "\<forall>lk. bbox2label key \<noteq> Some lk \<longrightarrow> L lk = labels results lk" by auto
  have "\<forall>mk ms. bbox2mask key = Some mk \<longrightarrow> masks (?r0\<lparr>labels := L\<rparr>) mk = Some ms
          \<longrightarrow> length ?valid \<le> length ms"
    using al bs by (auto simp: field_aligned_def)
  from filter_masks_ok [OF this, of mask_crop "(crop_x1 cw, crop_y1 cw, crop_x2 cw, crop_y2 cw)"]
  obtain M where M: "filter_masks mask_crop (crop_x1 cw, crop_y1 cw, crop_x2 cw, crop_y2 cw)
                       key ?valid (?r0\<lparr>labels := L\<rparr>) = Inr (?r0\<lparr>labels := L, masks := M\<rparr>)"
    and M': "\<forall>mk. bbox2mask key \<noteq> Some mk \<longrightarrow> M mk = masks results mk" by auto
  have ex: "list_ex (\<lambda>v. v) ?valid \<longleftrightarrow> (\<exists>b \<in> set bs. positive_box (translate_clip fl cw b))"
    by (simp add: list_ex_iff del: map_map)
  have "crop_bboxes fl mask_crop self cw (key # keys) results =
        crop_bboxes fl mask_crop self cw keys (?r0\<lparr>labels := L, masks := M\<rparr>)"
    using go by (auto simp add: bs Let_def ex sel L M simp del: map_map)
  with L' M' show ?thesis by blast
qed

lemma field_aligned_other:
  assumes "field_aligned results k'" and "k' \<noteq> key"
    and L: "\<forall>lk. bbox2label key \<noteq> Some lk \<longrightarrow> L lk = labels results lk"
    and M: "\<forall>mk. bbox2mask key \<noteq> Some mk \<longrightarrow> M mk = masks results mk"
  shows "field_aligned (results\<lparr>boxes := (boxes results)(key \<mapsto> bs'), labels := L, masks := M\<rparr>) k'"
proof -
  have l: "\<And>lk. bbox2label k' = Some lk \<Longrightarrow> L lk = labels results lk"
    using L bbox2label_inj [of key _ k'] \<open>k' \<noteq> key\<close> by blast
  have m: "\<And>mk. bbox2mask k' = Some mk \<Longrightarrow> M mk = masks results mk"
    using M bbox2mask_inj [of key _ k'] \<open>k' \<noteq> key\<close> by blast
  from assms(1,2) show ?thesis
    by (auto simp: field_aligned_def l m split: option.splits)
qed

lemma crop_bboxes_spec:
  assumes "distinct keys" and "\<forall>k \<in> set keys. field_aligned results k"
  shows "(''gt_bboxes'' \<notin> set keys \<longrightarrow>
            (\<exists>r. crop_bboxes fl mask_crop self cw keys results = Inr (Some r) \<and>
                 boxes r ''gt_bboxes'' = boxes results ''gt_bboxes'' \<and>
                 segs r = segs results \<and> seg_fields r = seg_fields results \<and>
                 img_shape r = img_shape results \<and> imgs r = imgs results)) \<and>
         (''gt_bboxes'' \<in> set keys \<longrightarrow>
            (\<forall>gt. boxes results ''gt_bboxes'' = Some gt \<longrightarrow>
               (if \<not> allow_negative_crop self \<and> \<not> (\<exists>b \<in> set gt. positive_box (translate_clip fl cw b))
                then crop_bboxes fl mask_crop self cw keys results = Inr None
                else \<exists>r. crop_bboxes fl mask_crop self cw keys results = Inr (Some r) \<and>
                       boxes r ''gt_bboxes'' =
                         Some (filter positive_box (map (translate_clip fl cw) gt)) \<and>
                       segs r = segs results \<and> seg_fields r = seg_fields results \<and>
                       img_shape r = img_shape results \<and> imgs r = imgs results)))"
  using assms
proof (induction keys arbitrary: results)
  case Nil
  then show ?case by simp
next
  case (Cons key keys)
  from Cons.prems have al: "field_aligned results key" by simp
  then obtain bs where bs: "boxes results key = Some bs"
    by (auto simp: field_aligned_def split: option.splits)
  show ?case
  proof (cases "key = ''gt_bboxes'' \<and> \<not> (\<exists>b \<in> set bs. positive_box (translate_clip fl cw b))
                 \<and> \<not> allow_negative_crop self")
    case True
    then have "list_ex (\<lambda>v. v) (map positive_box (map (translate_clip fl cw) bs)) = False"
      by (simp add: list_ex_iff del: map_map)
    moreover from True bs have "boxes results ''gt_bboxes'' = Some bs" by simp
    ultimately have "crop_bboxes fl mask_crop self cw (key # keys) results = Inr None"
      using True by (simp add: Let_def del: map_map)
    with True bs show ?thesis by auto
  next
    case False
    from crop_bboxes_step [OF al bs False, of mask_crop keys]
    obtain L M where
      step: "crop_bboxes fl mask_crop self cw (key # keys) results =
             crop_bboxes fl mask_crop self cw keys
               (results\<lparr>boxes := (boxes results)
                          (key \<mapsto> filter positive_box (map (translate_clip fl cw) bs)),
                        labels := L, masks := M\<rparr>)"
      and L: "\<forall>lk. bbox2label key \<noteq> Some lk \<longrightarrow> L lk = labels results lk"
      and M: "\<forall>mk. bbox2mask key \<noteq> Some mk \<longrightarrow> M mk = masks results mk"
      by blast
    let ?r2 = "results\<lparr>boxes := (boxes results)
                          (key \<mapsto> filter positive_box (map (translate_clip fl cw) bs)),
                        labels := L, masks := M\<rparr>"
    from Cons.prems have dist: "distinct keys" and notin: "key \<notin> set keys" by simp_all
    have al2: "\<forall>k \<in> set keys. field_aligned ?r2 k"
    proof
      fix k assume k: "k \<in> set keys"
      with notin have ne: "k \<noteq> key" by auto
      from k Cons.prems have "field_aligned results k" by simp
      then show "field_aligned ?r2 k" using ne L M by (rule field_aligned_other)
    qed
    note IH = Cons.IH [OF dist al2]
    show ?thesis
    proof (cases "key = ''gt_bboxes''")
      case True
      with notin have "''gt_bboxes'' \<notin> set keys" by simp
      with IH obtain r where
        r: "crop_bboxes fl mask_crop self cw keys ?r2 = Inr (Some r)"
           "boxes r ''gt_bboxes'' = boxes ?r2 ''gt_bboxes''"
           "segs r = segs ?r2" "seg_fields r = seg_fields ?r2"
           "img_shape r = img_shape ?r2" "imgs r = imgs ?r2"
        by blast
      from False True have go: "allow_negative_crop self \<or> (\<exists>b \<in> set bs. positive_box (translate_clip fl cw b))"
        by blast
      have res: "crop_bboxes fl mask_crop self cw (key # keys) results = Inr (Some r)"
        by (simp only: step r(1))
      have "boxes r ''gt_bboxes'' = Some (filter positive_box (map (translate_clip fl cw) bs))"
        using r(2) True by simp
      with res r(3-6) True bs go show ?thesis by (auto simp del: crop_bboxes.simps)
    next
      case neq: False
      then have same: "boxes ?r2 ''gt_bboxes'' = boxes results ''gt_bboxes''" by simp
      show ?thesis
      proof (cases "''gt_bboxes'' \<in> set keys")
        case True
        have res: "crop_bboxes fl mask_crop self cw (key # keys) results =
                   crop_bboxes fl mask_crop self cw keys ?r2" by (rule step)
        from IH True have ih:
          "\<forall>gt. boxes ?r2 ''gt_bboxes'' = Some gt \<longrightarrow>
               (if \<not> allow_negative_crop self \<and> \<not> (\<exists>b \<in> set gt. positive_box (translate_clip fl cw b))
                then crop_bboxes fl mask_crop self cw keys ?r2 = Inr None
                else \<exists>r. crop_bboxes fl mask_crop self cw keys ?r2 = Inr (Some r) \<and>
                       boxes r ''gt_bboxes'' =
                         Some (filter positive_box (map (translate_clip fl cw) gt)) \<and>
                       segs r = segs ?r2 \<and> seg_fields r = seg_fields ?r2 \<and>
                       img_shape r = img_shape ?r2 \<and> imgs r = imgs ?r2)"
          by blast
        have rec: "segs ?r2 = segs results" "seg_fields ?r2 = seg_fields results"
          "img_shape ?r2 = img_shape results" "imgs ?r2 = imgs results" by simp_all
        have ih': "\<forall>gt. boxes results ''gt_bboxes'' = Some gt \<longrightarrow>
               (if \<not> allow_negative_crop self \<and> \<not> (\<exists>b \<in> set gt. positive_box (translate_clip fl cw b))
                then crop_bboxes fl mask_crop self cw keys ?r2 = Inr None
                else \<exists>r. crop_bboxes fl mask_crop self cw keys ?r2 = Inr (Some r) \<and>
                       boxes r ''gt_bboxes'' =
                         Some (filter positive_box (map (translate_clip fl cw) gt)) \<and>
                       segs r = segs results \<and> seg_fields r = seg_fields results \<and>
                       img_shape r = img_shape results \<and> imgs r = imgs results)"
          using ih unfolding same rec .
        show ?thesis unfolding res
        proof (intro conjI impI)
          assume "''gt_bboxes'' \<notin> set (key # keys)"
          with True show "\<exists>r. crop_bboxes fl mask_crop self cw keys ?r2 = Inr (Some r) \<and>
                 boxes r ''gt_bboxes'' = boxes results ''gt_bboxes'' \<and>
                 segs r = segs results \<and> seg_fields r = seg_fields results \<and>
                 img_shape r = img_shape results \<and> imgs r = imgs results" by simp
        next
          show "\<forall>gt. boxes results ''gt_bboxes'' = Some gt \<longrightarrow>
               (if \<not> allow_negative_crop self \<and> \<not> (\<exists>b \<in> set gt. positive_box (translate_clip fl cw b))
                then crop_bboxes fl mask_crop self cw keys ?r2 = Inr None
                else \<exists>r. crop_bboxes fl mask_crop self cw keys ?r2 = Inr (Some r) \<and>
                       boxes r ''gt_bboxes'' =
                         Some (filter positive_box (map (translate_clip fl cw) gt)) \<and>
                       segs r = segs results \<and> seg_fields r = seg_fields results \<and>
                       img_shape r = img_shape results \<and> imgs r = imgs results)"
            by (rule ih')
        qed
      next
        case False
        with IH obtain r where
          r: "crop_bboxes fl mask_crop self cw keys ?r2 = Inr (Some r)"
             "boxes r ''gt_bboxes'' = boxes ?r2 ''gt_bboxes''"
             "segs r = segs ?r2" "seg_fields r = seg_fields ?r2"
             "img_shape r = img_shape ?r2" "imgs r = imgs ?r2"
          by blast
        have res: "crop_bboxes fl mask_crop self cw (key # keys) results = Inr (Some r)"
          by (simp only: step r(1))
        from res r(2-6) False neq same show ?thesis by (auto simp del: crop_bboxes.simps)
      qed
    qed
  qed
qed

lemma crop_segs_total:
  "\<forall>k \<in> set keys. segs results k \<noteq> None \<Longrightarrow>
   \<exists>r. crop_segs cw keys results = Inr r \<and> boxes r = boxes results \<and>
       img_shape r = img_shape results"
proof (induction keys arbitrary: results)
  case Nil
  then show ?case by simp
next
  case (Cons key keys)
  then obtain seg where seg: "segs results key = Some seg" by auto
  let ?r = "results\<lparr>segs := (segs results)
               (key \<mapsto> np_slice2 seg (crop_y1 cw) (crop_y2 cw) (crop_x1 cw) (crop_x2 cw))\<rparr>"
  from Cons.prems have "\<forall>k \<in> set keys. segs ?r k \<noteq> None" by simp
  from Cons.IH [OF this] show ?case by (simp add: seg)
qed

text \<open>
  Claim C8. Take a record with at least one image field, every image field present, whose
  box fields are pairwise distinct, aligned and include \<open>gt_bboxes\<close>, and whose
  segmentation fields are present. Let \<open>cw\<close> be the crop window sampled for the last
  image field. Then \<open>JointRandomCrop\<close> returns \<open>None\<close> if \<open>allow_negative_crop\<close>
  is false and no row of \<open>gt_bboxes\<close>, translated by the offsets of \<open>cw\<close> and clipped
  to the cropped image, has a positive width and a positive height; otherwise it returns
  a record, whose \<open>gt_bboxes\<close> are the translated and clipped rows of positive width
  and height and whose \<open>img_shape\<close> is the shape of the cropped image.
\<close>

theorem JointRandomCrop_rejects_iff:
  assumes imgs: "img_keys results \<noteq> []" "\<forall>k \<in> set (img_keys results). imgs results k \<noteq> None"
    and bf: "bbox_fields results = Some keys" "''gt_bboxes'' \<in> set keys" "distinct keys"
            "\<forall>k \<in> set keys. field_aligned results k"
    and sf: "\<forall>k \<in> set (seg_keys results). segs results k \<noteq> None"
    and gt: "boxes results ''gt_bboxes'' = Some gt"
  shows "\<exists>results1 cw.
           crop_imgs self rand (img_keys results) 0 results None = Inr (results1, Some cw) \<and>
           (if \<not> allow_negative_crop self \<and>
               \<not> (\<exists>b \<in> set gt. positive_box (translate_clip fl cw b))
            then JointRandomCrop_call fl mask_crop self rand results = Inr None
            else \<exists>r. JointRandomCrop_call fl mask_crop self rand results = Inr (Some r) \<and>
                   boxes r ''gt_bboxes'' =
                     Some (filter positive_box (map (translate_clip fl cw) gt)) \<and>
                   img_shape r = Some (new_shape cw))"
proof -
  from crop_imgs_total [OF imgs(2), of self rand 0 None] imgs(1)
  obtain results1 cw where
    ci: "crop_imgs self rand (img_keys results) 0 results None = Inr (results1, Some cw)"
    by auto
  note f = crop_imgs_fields [OF ci]
  let ?r1 = "results1\<lparr>img_shape := Some (new_shape cw)\<rparr>"
  have "\<And>k. field_aligned ?r1 k = field_aligned results k"
    using f by (auto simp: field_aligned_def split: option.splits)
  with bf(4) have al: "\<forall>k \<in> set keys. field_aligned ?r1 k" by simp
  have gt1: "boxes ?r1 ''gt_bboxes'' = Some gt" using gt f by simp
  have bk: "bbox_fields results1 = Some keys" using bf(1) f by simp
  from crop_bboxes_spec [OF bf(3) al, of fl mask_crop self cw] bf(2) gt1
  have spec: "if \<not> allow_negative_crop self \<and> \<not> (\<exists>b \<in> set gt. positive_box (translate_clip fl cw b))
              then crop_bboxes fl mask_crop self cw keys ?r1 = Inr None
              else \<exists>r. crop_bboxes fl mask_crop self cw keys ?r1 = Inr (Some r) \<and>
                     boxes r ''gt_bboxes'' =
                       Some (filter positive_box (map (translate_clip fl cw) gt)) \<and>
                     segs r = segs ?r1 \<and> seg_fields r = seg_fields ?r1 \<and>
                     img_shape r = img_shape ?r1 \<and> imgs r = imgs ?r1"
    by blast
  have call: "JointRandomCrop_call fl mask_crop self rand results =
     (case crop_bboxes fl mask_crop self cw keys ?r1 of
             Inl e \<Rightarrow> Inl e
           | Inr None \<Rightarrow> Inr None
           | Inr (Some results2) \<Rightarrow>
               (case crop_segs cw (seg_keys results2) results2 of
                  Inl e \<Rightarrow> Inl e
                | Inr results3 \<Rightarrow> Inr (Some results3)))"
    using ci by (simp add: JointRandomCrop_call_def bbox_keys_def bk)
  show ?thesis
  proof (cases "\<not> allow_negative_crop self \<and> \<not> (\<exists>b \<in> set gt. positive_box (translate_clip fl cw b))")
    case True
    with spec have "crop_bboxes fl mask_crop self cw keys ?r1 = Inr None" by simp
    with True ci show ?thesis by (auto simp: call)
  next
    case False
    from spec [unfolded if_not_P [OF False]] obtain r where
      r: "crop_bboxes fl mask_crop self cw keys ?r1 = Inr (Some r)"
         "boxes r ''gt_bboxes'' = Some (filter positive_box (map (translate_clip fl cw) gt))"
         "segs r = segs ?r1" "seg_fields r = seg_fields ?r1" "img_shape r = img_shape ?r1"
      by blast
    have "seg_keys r = seg_keys results" using r(4) f by (simp add: seg_keys_def)
    moreover have "segs r = segs results" using r(3) f by simp
    ultimately have "\<forall>k \<in> set (seg_keys r). segs r k \<noteq> None" using sf by simp
    from crop_segs_total [OF this, of cw]
    obtain r3 where r3: "crop_segs cw (seg_keys r) r = Inr r3" "boxes r3 = boxes r"
      "img_shape r3 = img_shape r" by blast
    have "JointRandomCrop_call fl mask_crop self rand results = Inr (Some r3)"
      by (simp add: call r(1) r3(1))
    moreover have "boxes r3 ''gt_bboxes'' = Some (filter positive_box (map (translate_clip fl cw) gt))"
      using r3(2) r(2) by simp
    moreover have "img_shape r3 = Some (new_shape cw)" using r3(3) r(5) by simp
    ultimately show ?thesis using False ci by auto
  qed
qed

text \<open>
  A 10 by 10 image, the crop size 4 by 4 at the offsets 0, and one box that lies outside
  of the crop window: the sample is rejected.
\<close>

theorem JointRandomCrop_rejects_iff_witness:
  "JointRandomCrop_call fl32 (\<lambda>patch (m :: unit). m)
     \<lparr>crop_size = (4, 4), allow_negative_crop = False\<rparr> (\<lambda>n. 0)
     \<lparr>img_fields = None, bbox_fields = Some [''gt_bboxes''], seg_fields = None,
      imgs = [''img'' \<mapsto> \<lparr>img_h = 10, img_w = 10, pix = (\<lambda>y x. 0 :: nat)\<rparr>],
      boxes = [''gt_bboxes'' \<mapsto> [(6, 6, 9, 9)]],
      labels = [''gt_labels'' \<mapsto> [1]], masks = Map.empty, segs = Map.empty,
      img_shape = Some (10, 10)\<rparr>
   = Inr None"
proof -
  let ?self = "\<lparr>crop_size = (4, 4), allow_negative_crop = False\<rparr>"
  let ?r = "\<lparr>img_fields = None, bbox_fields = Some [''gt_bboxes''], seg_fields = None,
      imgs = [''img'' \<mapsto> \<lparr>img_h = 10, img_w = 10, pix = (\<lambda>y x. 0 :: nat)\<rparr>],
      boxes = [''gt_bboxes'' \<mapsto> [(6, 6, 9, 9)]],
      labels = [''gt_labels'' \<mapsto> [1]], masks = (Map.empty :: string \<rightharpoonup> unit list),
      segs = Map.empty, img_shape = Some (10, 10)\<rparr>"
  let ?cw = "\<lparr>offset_h = 0, offset_w = 0, crop_y1 = 0, crop_y2 = 4, crop_x1 = 0, crop_x2 = 4,
             new_shape = (4, 4)\<rparr>"
  have 1: "img_keys ?r \<noteq> []" by (simp add: img_keys_def)
  have 2: "\<forall>k \<in> set (img_keys ?r). imgs ?r k \<noteq> None" by (simp add: img_keys_def)
  have 3: "bbox_fields ?r = Some [''gt_bboxes'']" by simp
  have 4: "''gt_bboxes'' \<in> set [''gt_bboxes'']" by simp
  have 5: "distinct [''gt_bboxes'']" by simp
  have 6: "\<forall>k \<in> set [''gt_bboxes'']. field_aligned ?r k"
    by (simp add: field_aligned_def bbox2label_def bbox2mask_def)
  have 7: "\<forall>k \<in> set (seg_keys ?r). segs ?r k \<noteq> None" by (simp add: seg_keys_def)
  have 8: "boxes ?r ''gt_bboxes'' = Some [(6, 6, 9, 9)]" by simp
  from JointRandomCrop_rejects_iff [OF 1 2 3 4 5 6 7 8, of ?self "\<lambda>n. 0" fl32 "\<lambda>patch m. m"]
  obtain results1 cw where
    a: "crop_imgs ?self (\<lambda>n. 0) (img_keys ?r) 0 ?r None = Inr (results1, Some cw)"
    and b: "if \<not> allow_negative_crop ?self \<and>
               \<not> (\<exists>b \<in> set [(6, 6, 9, 9)]. positive_box (translate_clip fl32 cw b))
            then JointRandomCrop_call fl32 (\<lambda>patch m. m) ?self (\<lambda>n. 0) ?r = Inr None
            else \<exists>r. JointRandomCrop_call fl32 (\<lambda>patch m. m) ?self (\<lambda>n. 0) ?r = Inr (Some r) \<and>
                   boxes r ''gt_bboxes'' =
                     Some (filter positive_box (map (translate_clip fl32 cw) [(6, 6, 9, 9)])) \<and>
                   img_shape r = Some (new_shape cw)"
    by blast
  have "\<exists>r1. crop_imgs ?self (\<lambda>n. 0) (img_keys ?r) 0 ?r None = Inr (r1, Some ?cw)"
    by (simp add: img_keys_def sample_window_def np_slice2_def Let_def)
  with a have cw: "cw = ?cw" by auto
  have "\<not> (\<exists>b \<in> set [(6, 6, 9, 9)]. positive_box (translate_clip fl32 ?cw b))"
    by code_simp
  with b show ?thesis unfolding cw by simp
qed

end
